theory Spec2Isabelle
  imports Complex_Main
begin

section \<open>Conventions of the embedding\<close>

text \<open>
  The costing calculator is Python. Its \<open>float\<close> values are modelled as real numbers
  (type \<open>real\<close>): rounding, infinities and NaN are outside the model, so every equation
  below is an equation of exact arithmetic. Python's \<open>int\<close> is \<open>int\<close>. A Python
  exception is a value \<open>Inl e\<close> of a sum type, a normal return is \<open>Inr v\<close>.

  An array design is an \<open>ArrayDesign\<close> typed dictionary (\<open>model.py\<close>, \<open>total=False\<close>):
  every key may be absent, and the code reads each key with \<open>design.get(key, default)\<close>.
  The record below has one optional field per key that the modelled code reads.
\<close>

datatype pyexn = TypeError | ValueError | AttributeError | ZeroDivisionError | IndexError

definition get_or :: "'a option \<Rightarrow> 'a \<Rightarrow> 'a" where
  "get_or field dflt = (case field of None \<Rightarrow> dflt | Some v \<Rightarrow> v)"

definition py_div :: "real \<Rightarrow> real \<Rightarrow> pyexn + real" where
  "py_div a b = (if b = 0 then Inl ZeroDivisionError else Inr (a / b))"

record array_design =
  num_cells :: "int option"
  eff_am15_percent :: "real option"
  eff_am0_percent :: "real option"
  cell_height_mm :: "real option"
  gap_between_cells_mm :: "real option"
  positive_end_gap_mm :: "real option"
  negative_end_gap_mm :: "real option"

section \<open>Geometry and power\<close>

subsection \<open>\<open>pages/array_designs.py\<close>: \<open>compute_power_for_design\<close>\<close>

definition CELL_AREA_CM2 :: real where
  "CELL_AREA_CM2 = 20.0"

definition CELL_AREA_M2 :: real where
  "CELL_AREA_M2 = CELL_AREA_CM2 / 10000.0"

definition IRRADIANCE_AM15 :: real where
  "IRRADIANCE_AM15 = 1000.0"

definition IRRADIANCE_AM0 :: real where
  "IRRADIANCE_AM0 = 1366.0"

record power_result =
  P_cell_AM15_W :: real
  P_array_AM15_W :: real
  P_cell_AM0_W :: real
  P_array_AM0_W :: real

definition compute_power_for_design :: "array_design \<Rightarrow> power_result" where
  "compute_power_for_design design =
     (let n = real_of_int (get_or (num_cells design) 0);
          eff15_pct = get_or (eff_am15_percent design) 0.0;
          eff0_pct = get_or (eff_am0_percent design) 0.0;
          eff15 = eff15_pct / 100.0;
          eff0 = eff0_pct / 100.0;
          p_cell_15 = eff15 * IRRADIANCE_AM15 * CELL_AREA_M2;
          p_array_15 = p_cell_15 * n;
          p_cell_0 = eff0 * IRRADIANCE_AM0 * CELL_AREA_M2;
          p_array_0 = p_cell_0 * n
      in \<lparr> P_cell_AM15_W = p_cell_15, P_array_AM15_W = p_array_15,
           P_cell_AM0_W = p_cell_0, P_array_AM0_W = p_array_0 \<rparr>)"

subsection \<open>\<open>pages/home.py\<close>: \<open>_compute_base_length_m\<close>, and the same lines of
  \<open>pages/cost_summary.py\<close>\<close>

text \<open>
  \<open>_compute_base_length_m(design, num_cells)\<close> returns the pair
  \<open>(base_length_mm, base_length_mm / 1000)\<close>.
\<close>

definition compute_base_length_m :: "array_design \<Rightarrow> int \<Rightarrow> real \<times> real" where
  "compute_base_length_m design n =
     (let cell_h = get_or (cell_height_mm design) 0.0;
          gap = get_or (gap_between_cells_mm design) 0.0;
          pos_gap = get_or (positive_end_gap_mm design) 0.0;
          neg_gap = get_or (negative_end_gap_mm design) 0.0;
          base_length_mm =
            cell_h * real_of_int n + gap * real_of_int (max (n - 1) 0) + pos_gap + neg_gap
      in (base_length_mm, base_length_mm / 1000.0))"

text \<open>
  The Cost Summary page (\<open>render\<close>, lines 330-349 and 560-561) reads \<open>num_cells\<close>, stops
  with the message below when it is not positive, and otherwise computes the base length
  with the same expression and the perimeter tape length from it. The result here is the
  pair \<open>(base_length_mm, perimeter_length_mm)\<close>.
\<close>

definition summary_geometry :: "array_design \<Rightarrow> string + (real \<times> real)" where
  "summary_geometry design =
     (let n = get_or (num_cells design) 0 in
      if n \<le> 0 then Inl ''Array design has invalid number of cells.''
      else
        let cell_h = get_or (cell_height_mm design) 0.0;
            gap = get_or (gap_between_cells_mm design) 0.0;
            pos_gap = get_or (positive_end_gap_mm design) 0.0;
            neg_gap = get_or (negative_end_gap_mm design) 0.0;
            base_length_mm =
              cell_h * real_of_int n + gap * real_of_int (max (n - 1) 0) + pos_gap + neg_gap;
            perimeter_length_mm = 2 * base_length_mm + 140.0
        in Inr (base_length_mm, perimeter_length_mm))"

text \<open>The perimeter length of the scenario table (\<open>home.py\<close>, line 356).\<close>

definition home_perimeter_length_mm :: "array_design \<Rightarrow> int \<Rightarrow> real" where
  "home_perimeter_length_mm design n = 2 * fst (compute_base_length_m design n) + 140.0"

section \<open>Order scenario by power target (\<open>pages/home.py\<close>, \<open>render\<close>, lines 858-873)\<close>



text \<open>The design of the specification's first concrete scenario.\<close>

definition design_20 :: array_design where
  "design_20 = \<lparr> num_cells = Some 20, eff_am15_percent = Some 30, eff_am0_percent = Some 28,
     cell_height_mm = Some 6.6, gap_between_cells_mm = Some 1.0,
     positive_end_gap_mm = Some 5.0, negative_end_gap_mm = Some 5.0 \<rparr>"

section \<open>Ag-head weld counts per array\<close>

text \<open>
  Three places compute the weld counts of the Ag head for one array, each from the
  number of cells (already read from the design and checked to be positive).
\<close>

record ag_weld_breakdown =
  top_tab_welds :: int
  negative_end_welds :: int
  positive_end_welds :: int
  bypass_diode_welds :: int

text \<open>\<open>pages/cost_weld_heads.py\<close>, \<open>render\<close>, lines 107-123.\<close>

definition weld_heads_page_ag_welds :: "int \<Rightarrow> ag_weld_breakdown" where
  "weld_heads_page_ag_welds cells =
     (let top_tabs = 2 * (cells - 1) in
      \<lparr> top_tab_welds = top_tabs * 4,
        negative_end_welds = 8,
        positive_end_welds = 4,
        bypass_diode_welds = cells * 2 \<rparr>)"

text \<open>\<open>pages/cost_summary.py\<close>, \<open>render\<close>, lines 488-499.\<close>

definition summary_ag_welds :: "int \<Rightarrow> ag_weld_breakdown" where
  "summary_ag_welds n =
     (let top_tabs_count = 2 * (n - 1) in
      \<lparr> top_tab_welds = top_tabs_count * 4,
        negative_end_welds = 8,
        positive_end_welds = 4,
        bypass_diode_welds = n * 4 \<rparr>)"

text \<open>\<open>pages/home.py\<close>, \<open>_render_material_requirements_expander\<close>, lines 193-201.\<close>

definition home_ag_welds :: "int \<Rightarrow> ag_weld_breakdown" where
  "home_ag_welds n =
     (let top_tabs_count = 2 * (n - 1) in
      \<lparr> top_tab_welds = top_tabs_count * 4,
        negative_end_welds = 8,
        positive_end_welds = 4,
        bypass_diode_welds = n * 4 \<rparr>)"

text \<open>The total each place passes on: \<open>ag_welds_per_array\<close>, \<open>total_welds\<close>,
  \<open>welds_ag_per_array\<close>.\<close>

definition ag_welds_per_array :: "ag_weld_breakdown \<Rightarrow> int" where
  "ag_welds_per_array b =
     top_tab_welds b + negative_end_welds b + positive_end_welds b + bypass_diode_welds b"

section \<open>Diode cost arithmetic\<close>

text \<open>
  The Diodes page and the Cost Summary page compute the bypass and blocking diode costs
  from unit costs that the resolvers have already returned: the diode price, the silver
  cost per mm of tab, and the cost per weld of the Al, Au and BL heads. The yield is
  entered as a percentage. The division by the yield is \<open>py_div\<close>, which raises
  \<open>ZeroDivisionError\<close> on a zero divisor, so that a result \<open>Inr\<close> says the code did not
  divide by zero.
\<close>

record diode_cost =
  dc_silver_cost :: real
  dc_raw_cost :: real
  dc_effective_cost :: real
  dc_total_cost :: real

text \<open>\<open>pages/cost_diodes.py\<close>, \<open>render\<close>, lines 286-309.\<close>

definition diodes_page_bypass ::
  "real \<Rightarrow> real \<Rightarrow> real \<Rightarrow> real \<Rightarrow> real \<Rightarrow> real \<Rightarrow> int \<Rightarrow> pyexn + diode_cost" where
  "diodes_page_bypass price_bypass_gbp cost_per_mm_bypass_tab tab_length_mm
       cost_per_weld_al cost_per_weld_au bypass_yield_percent n =
     (let bypass_yield = bypass_yield_percent / 100.0;
          tabs_per_bypass_diode = 2;
          total_tab_length_per_diode_mm = tabs_per_bypass_diode * tab_length_mm;
          silver_cost_per_bypass_diode = cost_per_mm_bypass_tab * total_tab_length_per_diode_mm;
          weld_cost_per_bypass_diode = cost_per_weld_al + cost_per_weld_au;
          raw_cost_per_bypass_diode =
            price_bypass_gbp + silver_cost_per_bypass_diode + weld_cost_per_bypass_diode
      in case (if bypass_yield > 0 then py_div raw_cost_per_bypass_diode bypass_yield
               else Inr 0.0) of
           Inl e \<Rightarrow> Inl e
         | Inr effective_cost_per_bypass_diode \<Rightarrow>
             Inr \<lparr> dc_silver_cost = silver_cost_per_bypass_diode,
                   dc_raw_cost = raw_cost_per_bypass_diode,
                   dc_effective_cost = effective_cost_per_bypass_diode,
                   dc_total_cost = effective_cost_per_bypass_diode * real_of_int n \<rparr>)"

text \<open>\<open>pages/cost_summary.py\<close>, \<open>render\<close>, lines 434-447.\<close>

definition summary_bypass ::
  "real \<Rightarrow> real \<Rightarrow> real \<Rightarrow> real \<Rightarrow> real \<Rightarrow> real \<Rightarrow> int \<Rightarrow> pyexn + diode_cost" where
  "summary_bypass price_bypass cost_per_mm_bypass tab_len
       cost_per_weld_al cost_per_weld_au bypass_yield_percent n =
     (let bypass_yield = bypass_yield_percent / 100.0;
          tabs_per_bypass = 2;
          total_tab_len_mm = tabs_per_bypass * tab_len;
          silver_cost_bypass = cost_per_mm_bypass * total_tab_len_mm;
          weld_cost_bypass = cost_per_weld_al + cost_per_weld_au;
          raw_cost_bypass = price_bypass + silver_cost_bypass + weld_cost_bypass
      in case (if bypass_yield > 0 then py_div raw_cost_bypass bypass_yield else Inr 0.0) of
           Inl e \<Rightarrow> Inl e
         | Inr eff_cost_bypass \<Rightarrow>
             Inr \<lparr> dc_silver_cost = silver_cost_bypass,
                   dc_raw_cost = raw_cost_bypass,
                   dc_effective_cost = eff_cost_bypass,
                   dc_total_cost = eff_cost_bypass * real_of_int n \<rparr>)"

text \<open>\<open>pages/cost_summary.py\<close>, \<open>render\<close>, lines 458-473: the branch taken when the
  blocking-tab silver item of the design is in the catalog. The Diodes page (lines
  386-411) has the same arithmetic.\<close>

definition summary_blocking ::
  "real \<Rightarrow> real \<Rightarrow> real \<Rightarrow> real \<Rightarrow> real \<Rightarrow> real \<Rightarrow> pyexn + diode_cost" where
  "summary_blocking price_blocking cost_per_mm_block block_len1 block_len2
       cost_per_weld_bl blocking_yield_percent =
     (let blocking_yield = blocking_yield_percent / 100.0;
          total_block_tab_len_mm = block_len1 + block_len2;
          silver_cost_block = cost_per_mm_block * total_block_tab_len_mm;
          weld_cost_block = 2 * cost_per_weld_bl;
          raw_cost_block = price_blocking + silver_cost_block + weld_cost_block
      in case (if blocking_yield > 0 then py_div raw_cost_block blocking_yield else Inr 0.0) of
           Inl e \<Rightarrow> Inl e
         | Inr eff_cost_block \<Rightarrow>
             Inr \<lparr> dc_silver_cost = silver_cost_block,
                   dc_raw_cost = raw_cost_block,
                   dc_effective_cost = eff_cost_block,
                   dc_total_cost = eff_cost_block * 2 \<rparr>)"

section \<open>Labour: \<open>labour_model.py\<close>\<close>

text \<open>
  \<open>str.lower()\<close> on the bytes of a string: the ASCII capitals are mapped to small
  letters and every other byte is kept.
\<close>

definition lower_char :: "char \<Rightarrow> char" where
  "lower_char c =
     get_or (map_of (zip ''ABCDEFGHIJKLMNOPQRSTUVWXYZ'' ''abcdefghijklmnopqrstuvwxyz'') c) c"

definition py_lower :: "string \<Rightarrow> string" where
  "py_lower s = map lower_char s"

text \<open>The dataclass \<open>OperatorProfile\<close> (fields \<open>id\<close>, \<open>name\<close>, \<open>job_title\<close>,
  \<open>hourly_rate\<close>).\<close>

record operator_profile =
  op_id :: string
  op_name :: string
  job_title :: string
  hourly_rate :: real

text \<open>
  A process step is a dictionary that \<open>calculate_labour\<close> reads with
  \<open>step.get(key, default)\<close>, through \<open>str\<close> for the two text keys and \<open>float\<close> for the
  three numbers. The record has one optional field per key; a field holds the text or the
  number that \<open>str\<close> or \<open>float\<close> returns. An entry of \<open>operators\<close> is the
  \<open>operator_id\<close> of one operator slot, \<open>None\<close> when the slot has none.
\<close>

record process_step =
  step_id :: "string option"
  step_name :: "string option"
  timing_basis :: "string option"
  quantity_source :: "string option"
  time_per_unit_s :: "real option"
  setup_time_s_per_array :: "real option"
  yield_fraction :: "real option"
  operators :: "string option list option"
  step_notes :: "string option"

text \<open>The dataclass \<open>LabourStepResult\<close>.\<close>

record labour_step_result =
  res_id :: string
  res_name :: string
  res_timing_basis :: string
  res_quantity_source :: string
  res_units_per_array :: real
  res_time_per_unit_s :: real
  res_setup_time_s_per_array :: real
  res_total_step_seconds :: real
  res_operator_hours :: real
  res_cost :: real
  res_assigned_operators :: "operator_profile list"
  res_notes :: string

record labour_result =
  lr_steps :: "labour_step_result list"
  lr_total_cost :: real
  lr_total_hours :: real

text \<open>\<open>qty_map\<close> (lines 181-189), with \<open>qty_map.get(quantity_source, 0.0)\<close> as the lookup.\<close>

definition qty_map :: "int \<Rightarrow> int \<Rightarrow> int \<Rightarrow> int \<Rightarrow> (string \<times> real) list" where
  "qty_map cells_per_string strings_per_array bypass_diodes_per_array blocking_diodes_per_array =
     (let cells_per_array = cells_per_string * strings_per_array in
      [(''array'', 1.0),
       (''cells'', real_of_int cells_per_array),
       (''strings'', real_of_int strings_per_array),
       (''bypass_diodes'', real_of_int bypass_diodes_per_array),
       (''blocking_diodes'', real_of_int blocking_diodes_per_array)])"

text \<open>Lines 224-229: the profiles of the operators assigned to a step, in order.\<close>

fun assigned_profiles :: "(string \<rightharpoonup> operator_profile) \<Rightarrow> string option list \<Rightarrow> operator_profile list" where
  "assigned_profiles operator_profiles [] = []"
| "assigned_profiles operator_profiles (None # ops) = assigned_profiles operator_profiles ops"
| "assigned_profiles operator_profiles (Some oid # ops) =
     (case (if oid = [] then None else operator_profiles oid) of
        None \<Rightarrow> assigned_profiles operator_profiles ops
      | Some profile \<Rightarrow> profile # assigned_profiles operator_profiles ops)"

text \<open>The body of the loop (lines 196-251) for one step.\<close>

definition labour_step ::
  "(string \<rightharpoonup> operator_profile) \<Rightarrow> (string \<times> real) list \<Rightarrow> process_step
     \<Rightarrow> pyexn + labour_step_result" where
  "labour_step operator_profiles qmap step =
     (let basis = py_lower (get_or (timing_basis step) ''per_array'');
          qsource = get_or (quantity_source step) ''array'';
          t = get_or (time_per_unit_s step) 0.0;
          setup = get_or (setup_time_s_per_array step) 0.0;
          y0 = get_or (yield_fraction step) 1.0;
          y = (if y0 \<le> 0 then 1.0 else y0);
          timing =
            (if basis = ''per_array'' then Inr (1.0, t + setup)
             else if basis = ''per_unit'' then
               (let nominal_units = get_or (map_of qmap qsource) 0.0 in
                case py_div nominal_units y of
                  Inl e \<Rightarrow> Inl e
                | Inr effective_units \<Rightarrow> Inr (nominal_units, effective_units * t + setup))
             else Inr (0.0, 0.0))
      in case timing of
           Inl e \<Rightarrow> Inl e
         | Inr (units_per_array, total_seconds) \<Rightarrow>
             (let operator_hours = total_seconds / 3600.0;
                  assigned = assigned_profiles operator_profiles (get_or (operators step) []);
                  step_cost = sum_list (map (\<lambda>p. hourly_rate p * operator_hours) assigned)
              in Inr \<lparr> res_id = get_or (step_id step) '''',
                       res_name = get_or (step_name step) '''',
                       res_timing_basis = basis,
                       res_quantity_source = qsource,
                       res_units_per_array = units_per_array,
                       res_time_per_unit_s = t,
                       res_setup_time_s_per_array = setup,
                       res_total_step_seconds = total_seconds,
                       res_operator_hours = operator_hours,
                       res_cost = step_cost,
                       res_assigned_operators = assigned,
                       res_notes = get_or (step_notes step) '''' \<rparr>))"

text \<open>The loop over the steps, with the three accumulators \<open>results\<close>, \<open>total_cost\<close>
  and \<open>total_hours\<close>.\<close>

fun labour_loop ::
  "(string \<rightharpoonup> operator_profile) \<Rightarrow> (string \<times> real) list \<Rightarrow> process_step list
     \<Rightarrow> labour_step_result list \<Rightarrow> real \<Rightarrow> real \<Rightarrow> pyexn + labour_result" where
  "labour_loop operator_profiles qmap [] results total_cost total_hours =
     Inr \<lparr> lr_steps = results, lr_total_cost = total_cost, lr_total_hours = total_hours \<rparr>"
| "labour_loop operator_profiles qmap (step # rest) results total_cost total_hours =
     (case labour_step operator_profiles qmap step of
        Inl e \<Rightarrow> Inl e
      | Inr r \<Rightarrow>
          labour_loop operator_profiles qmap rest (results @ [r])
            (total_cost + res_cost r) (total_hours + res_operator_hours r))"

definition calculate_labour ::
  "process_step list \<Rightarrow> (string \<rightharpoonup> operator_profile) \<Rightarrow> int \<Rightarrow> int \<Rightarrow> int \<Rightarrow> int
     \<Rightarrow> pyexn + labour_result" where
  "calculate_labour process_steps operator_profiles cells_per_string strings_per_array
       bypass_diodes_per_array blocking_diodes_per_array =
     labour_loop operator_profiles
       (qty_map cells_per_string strings_per_array bypass_diodes_per_array
          blocking_diodes_per_array)
       process_steps [] 0.0 0.0"

subsection \<open>The aggregation as the specification words it\<close>

text \<open>
  The specification's whole-process aggregation, written from its words: the quantity of
  a step's \<open>quantity_source\<close>, the total seconds of a step by timing basis, and the cost of
  a step. The yield fraction is the one used in computation, that is 1 when the stored
  value is not positive. A quantity source outside the five named ones counts 0 units.
\<close>

definition spec_quantity :: "int \<Rightarrow> int \<Rightarrow> int \<Rightarrow> int \<Rightarrow> string \<Rightarrow> real" where
  "spec_quantity cells_per_string strings_per_array bypass_diodes blocking_diodes src =
     (if src = ''array'' then 1
      else if src = ''cells'' then real_of_int (cells_per_string * strings_per_array)
      else if src = ''strings'' then real_of_int strings_per_array
      else if src = ''bypass_diodes'' then real_of_int bypass_diodes
      else if src = ''blocking_diodes'' then real_of_int blocking_diodes
      else 0)"

definition spec_yield :: "process_step \<Rightarrow> real" where
  "spec_yield s = (if get_or (yield_fraction s) 1 \<le> 0 then 1 else get_or (yield_fraction s) 1)"

definition spec_step_seconds :: "int \<Rightarrow> int \<Rightarrow> int \<Rightarrow> int \<Rightarrow> process_step \<Rightarrow> real" where
  "spec_step_seconds cells_per_string strings_per_array bypass_diodes blocking_diodes s =
     (if py_lower (get_or (timing_basis s) ''per_array'') = ''per_unit'' then
        (spec_quantity cells_per_string strings_per_array bypass_diodes blocking_diodes
           (get_or (quantity_source s) ''array'') / spec_yield s)
          * get_or (time_per_unit_s s) 0 + get_or (setup_time_s_per_array s) 0
      else if py_lower (get_or (timing_basis s) ''per_array'') = ''per_array'' then
        get_or (time_per_unit_s s) 0 + get_or (setup_time_s_per_array s) 0
      else 0)"

definition spec_step_cost ::
  "(string \<rightharpoonup> operator_profile) \<Rightarrow> int \<Rightarrow> int \<Rightarrow> int \<Rightarrow> int \<Rightarrow> process_step \<Rightarrow> real" where
  "spec_step_cost operator_profiles cells_per_string strings_per_array bypass_diodes
       blocking_diodes s =
     (spec_step_seconds cells_per_string strings_per_array bypass_diodes blocking_diodes s / 3600)
       * sum_list (map hourly_rate
           (assigned_profiles operator_profiles (get_or (operators s) [])))"

text \<open>A step with its stored yield replaced by 1 when that yield is not positive.\<close>

definition with_clamped_yield :: "process_step \<Rightarrow> process_step" where
  "with_clamped_yield s =
     (if get_or (yield_fraction s) 1 \<le> 0 then s\<lparr> yield_fraction := Some 1 \<rparr> else s)"

text \<open>A sample process step (stored yield 0) and a sample operator table.\<close>

definition welding_step :: process_step where
  "welding_step = \<lparr> step_id = Some ''weld'', step_name = Some ''Weld tabs'',
     timing_basis = Some ''per_unit'', quantity_source = Some ''cells'',
     time_per_unit_s = Some 30, setup_time_s_per_array = Some 60,
     yield_fraction = Some 0, operators = Some [Some ''op1'', None],
     step_notes = None \<rparr>"

definition one_operator :: "string \<rightharpoonup> operator_profile" where
  "one_operator = map_of [(''op1'',
     \<lparr> op_id = ''op1'', op_name = ''A'', job_title = ''Technician'', hourly_rate = 36 \<rparr>)]"

section \<open>Catalog records\<close>

text \<open>
  A catalog item is a dictionary loaded from YAML whose values are not checked when it is
  loaded. \<open>pyval\<close> has the values such a field can hold. Three Python built-ins are used
  on them: \<open>float(v)\<close>, truth (\<open>not v\<close>, \<open>v or d\<close>) and the string methods \<open>upper\<close> and
  \<open>lower\<close>. How \<open>float\<close> reads a string is Python's own business: it is the parameter
  \<open>P\<close> of everything below (\<open>P s = None\<close> when \<open>float(s)\<close> raises \<open>ValueError\<close>), and
  so is the text \<open>S v\<close> that \<open>str(v)\<close> gives for a value that is not a string.
\<close>

datatype pyval = PNone | PBool bool | PInt int | PFloat real | PStr string | PList "pyval list"

type_synonym pydict = "(string \<times> pyval) list"

definition dict_get :: "pydict \<Rightarrow> string \<Rightarrow> pyval \<Rightarrow> pyval" where
  "dict_get d k dflt = get_or (map_of d k) dflt"

definition dict_has :: "pydict \<Rightarrow> string \<Rightarrow> bool" where
  "dict_has d k = (case map_of d k of None \<Rightarrow> False | Some v \<Rightarrow> True)"

fun truthy :: "pyval \<Rightarrow> bool" where
  "truthy PNone = False"
| "truthy (PBool b) = b"
| "truthy (PInt i) = (i \<noteq> 0)"
| "truthy (PFloat x) = (x \<noteq> 0)"
| "truthy (PStr s) = (s \<noteq> [])"
| "truthy (PList vs) = (vs \<noteq> [])"

definition py_or :: "pyval \<Rightarrow> pyval \<Rightarrow> pyval" where
  "py_or a b = (if truthy a then a else b)"

fun py_float :: "(string \<Rightarrow> real option) \<Rightarrow> pyval \<Rightarrow> pyexn + real" where
  "py_float P PNone = Inl TypeError"
| "py_float P (PBool b) = Inr (if b then 1 else 0)"
| "py_float P (PInt i) = Inr (real_of_int i)"
| "py_float P (PFloat x) = Inr x"
| "py_float P (PStr s) = (case P s of None \<Rightarrow> Inl ValueError | Some x \<Rightarrow> Inr x)"
| "py_float P (PList vs) = Inl TypeError"

definition py_str :: "(pyval \<Rightarrow> string) \<Rightarrow> pyval \<Rightarrow> string" where
  "py_str S v = (case v of PStr s \<Rightarrow> s | _ \<Rightarrow> S v)"

definition upper_char :: "char \<Rightarrow> char" where
  "upper_char c =
     get_or (map_of (zip ''abcdefghijklmnopqrstuvwxyz'' ''ABCDEFGHIJKLMNOPQRSTUVWXYZ'') c) c"

definition py_upper :: "string \<Rightarrow> string" where
  "py_upper s = map upper_char s"

text \<open>\<open>v.upper()\<close> and \<open>v.lower()\<close>: only a string has the method.\<close>

fun method_upper :: "pyval \<Rightarrow> pyexn + string" where
  "method_upper (PStr s) = Inr (py_upper s)"
| "method_upper v = Inl AttributeError"


text \<open>The expression \<open>(item.get(key, dflt) or dflt).upper()\<close>, which every resolver uses
  to read a currency.\<close>

definition currency_field :: "pydict \<Rightarrow> string \<Rightarrow> string \<Rightarrow> pyexn + string" where
  "currency_field item k dflt = method_upper (py_or (dict_get item k (PStr dflt)) (PStr dflt))"

text \<open>Sequencing of statements that may raise, and the two \<open>except\<close> clauses of the
  resolvers: \<open>except (TypeError, ValueError)\<close> and \<open>except Exception\<close>.\<close>

definition py_bind :: "pyexn + 'a \<Rightarrow> ('a \<Rightarrow> pyexn + 'b) \<Rightarrow> pyexn + 'b" where
  "py_bind m f = (case m of Inl e \<Rightarrow> Inl e | Inr v \<Rightarrow> f v)"

definition type_or_value_error :: "pyexn \<Rightarrow> bool" where
  "type_or_value_error e = (e = TypeError \<or> e = ValueError)"

definition except_tv :: "pyexn + 'a \<Rightarrow> 'a \<Rightarrow> pyexn + 'a" where
  "except_tv m handler =
     (case m of Inl e \<Rightarrow> (if type_or_value_error e then Inr handler else Inl e) | Inr v \<Rightarrow> Inr v)"

definition except_all :: "pyexn + 'a \<Rightarrow> 'a \<Rightarrow> pyexn + 'a" where
  "except_all m handler = (case m of Inl e \<Rightarrow> Inr handler | Inr v \<Rightarrow> Inr v)"

section \<open>Unit-cost resolvers\<close>

text \<open>
  Each resolver takes a catalog item and the exchange rate (GBP per USD, a float of the
  product configuration) and returns a cost in GBP, or raises.
\<close>

subsection \<open>\<open>pages/cost_silver.py\<close>: \<open>get_silver_cost_per_mm\<close>\<close>



subsection \<open>\<open>pages/cost_diodes.py\<close>: \<open>get_diode_price_gbp\<close>\<close>


subsection \<open>\<open>get_weld_cost_per_weld\<close>, three times\<close>

text \<open>
  The \<open>try\<close> block that converts the unit cost either leaves the function with 0.0
  (\<open>None\<close> below) or yields the total cost in GBP.
\<close>

definition weld_total_cost_gbp ::
  "(string \<Rightarrow> real option) \<Rightarrow> pydict \<Rightarrow> real \<Rightarrow> string \<Rightarrow> pyexn + real option" where
  "weld_total_cost_gbp P weld_item exchange_rate currency =
     (if currency = ''USD'' then
        (let unit_cost_usd = dict_get weld_item ''unit_cost_usd'' PNone in
         if unit_cost_usd = PNone then Inr None
         else py_bind (py_float P unit_cost_usd) (\<lambda>u. Inr (Some (u * exchange_rate))))
      else
        (let unit_cost_gbp = dict_get weld_item ''unit_cost_gbp'' PNone in
         if unit_cost_gbp = PNone then Inr None
         else py_bind (py_float P unit_cost_gbp) (\<lambda>u. Inr (Some u))))"

text \<open>\<open>pages/cost_diodes.py\<close>, lines 79-110.\<close>

definition get_weld_cost_per_weld_diodes ::
  "(string \<Rightarrow> real option) \<Rightarrow> pydict \<Rightarrow> real \<Rightarrow> pyexn + real" where
  "get_weld_cost_per_weld_diodes P weld_item exchange_rate =
     py_bind (currency_field weld_item ''currency'' ''USD'') (\<lambda>currency.
       case py_float P (dict_get weld_item ''num_welds'' (PInt 0)) of
         Inl e \<Rightarrow> (if type_or_value_error e then Inr 0.0 else Inl e)
       | Inr num_welds \<Rightarrow>
           if num_welds \<le> 0 then Inr 0.0
           else
             (case weld_total_cost_gbp P weld_item exchange_rate currency of
                Inl e \<Rightarrow> (if type_or_value_error e then Inr 0.0 else Inl e)
              | Inr None \<Rightarrow> Inr 0.0
              | Inr (Some total_cost_gbp) \<Rightarrow> py_div total_cost_gbp num_welds))"

text \<open>\<open>pages/cost_summary.py\<close>, lines 64-89: the same text with the default currency
  \<open>"GBP"\<close>.\<close>

definition get_weld_cost_per_weld_summary ::
  "(string \<Rightarrow> real option) \<Rightarrow> pydict \<Rightarrow> real \<Rightarrow> pyexn + real" where
  "get_weld_cost_per_weld_summary P weld_item exchange_rate =
     py_bind (currency_field weld_item ''currency'' ''GBP'') (\<lambda>currency.
       case py_float P (dict_get weld_item ''num_welds'' (PInt 0)) of
         Inl e \<Rightarrow> (if type_or_value_error e then Inr 0.0 else Inl e)
       | Inr num_welds \<Rightarrow>
           if num_welds \<le> 0 then Inr 0.0
           else
             (case weld_total_cost_gbp P weld_item exchange_rate currency of
                Inl e \<Rightarrow> (if type_or_value_error e then Inr 0.0 else Inl e)
              | Inr None \<Rightarrow> Inr 0.0
              | Inr (Some total_cost_gbp) \<Rightarrow> py_div total_cost_gbp num_welds))"

text \<open>
  \<open>pages/cost_weld_heads.py\<close>, lines 14-38. The item may be \<open>None\<close> (a head that
  \<open>find_material_by_id\<close> did not find). The currency and \<open>num_welds\<close> are read inside
  \<open>try ... except Exception\<close>; the unit cost is converted outside any \<open>try\<close>, and the
  GBP cost is read with the default 0.
\<close>

definition get_weld_cost_per_weld_weld_heads ::
  "(string \<Rightarrow> real option) \<Rightarrow> pydict option \<Rightarrow> real \<Rightarrow> pyexn + real" where
  "get_weld_cost_per_weld_weld_heads P weld_item_opt exchange_rate =
     (case weld_item_opt of
        None \<Rightarrow> Inr 0.0
      | Some weld_item \<Rightarrow>
          (case py_bind (currency_field weld_item ''currency'' ''USD'') (\<lambda>currency.
                  py_bind (py_float P (dict_get weld_item ''num_welds'' (PInt 0))) (\<lambda>num_welds.
                  Inr (currency, num_welds))) of
             Inl e \<Rightarrow> Inr 0.0
           | Inr (currency, num_welds) \<Rightarrow>
               if num_welds \<le> 0 then Inr 0.0
               else if currency = ''USD'' then
                 (let unit_cost_usd = dict_get weld_item ''unit_cost_usd'' PNone in
                  if unit_cost_usd = PNone then Inr 0.0
                  else py_bind (py_float P unit_cost_usd) (\<lambda>u.
                         py_div (u * exchange_rate) num_welds))
               else
                 py_bind (py_float P (dict_get weld_item ''unit_cost_gbp'' (PInt 0)))
                   (\<lambda>unit_cost_gbp. py_div unit_cost_gbp num_welds)))"

subsection \<open>\<open>pages/cost_summary.py\<close>: rolls, Kapton, epoxy, unit-priced items, foam\<close>








text \<open>\<open>get_unit_cost_gbp\<close> (lines 249-265): the currency is read first.\<close>

definition get_unit_cost_gbp ::
  "(string \<Rightarrow> real option) \<Rightarrow> pydict \<Rightarrow> real \<Rightarrow> pyexn + real" where
  "get_unit_cost_gbp P item exchange_rate =
     py_bind (currency_field item ''currency'' ''GBP'') (\<lambda>currency.
       if dict_has item ''unit_cost_gbp'' \<and> dict_get item ''unit_cost_gbp'' PNone \<noteq> PNone then
         except_tv (py_float P (dict_get item ''unit_cost_gbp'' PNone)) 0.0
       else if dict_has item ''unit_cost_usd'' \<and> dict_get item ''unit_cost_usd'' PNone \<noteq> PNone
               \<and> currency = ''USD'' then
         except_tv
           (py_bind (py_float P (dict_get item ''unit_cost_usd'' PNone))
              (\<lambda>c. Inr (c * exchange_rate))) 0.0
       else Inr 0.0)"

text \<open>\<open>get_foam_cost_per_piece\<close> (lines 268-298): the currency is read after the
  number of pieces has been checked, before the GBP total is looked at.\<close>

definition get_foam_cost_per_piece ::
  "(string \<Rightarrow> real option) \<Rightarrow> pydict \<Rightarrow> real \<Rightarrow> pyexn + real" where
  "get_foam_cost_per_piece P item exchange_rate =
     (let num_pieces_raw = dict_get item ''num_pieces'' PNone in
      if \<not> truthy num_pieces_raw then Inr 0.0
      else
        case py_float P num_pieces_raw of
          Inl e \<Rightarrow> (if type_or_value_error e then Inr 0.0 else Inl e)
        | Inr num_pieces \<Rightarrow>
            if num_pieces \<le> 0 then Inr 0.0
            else
              py_bind (currency_field item ''currency'' ''GBP'') (\<lambda>currency.
                let total_cost_gbp = dict_get item ''total_cost_gbp'' PNone in
                if total_cost_gbp \<noteq> PNone then
                  except_tv (py_bind (py_float P total_cost_gbp) (\<lambda>c. py_div c num_pieces)) 0.0
                else
                  let total_cost_usd = dict_get item ''total_cost_usd'' PNone in
                  if total_cost_usd \<noteq> PNone \<and> currency = ''USD'' then
                    except_tv
                      (py_bind (py_float P total_cost_usd)
                         (\<lambda>c. py_div (c * exchange_rate) num_pieces)) 0.0
                  else Inr 0.0))"

subsection \<open>Unusable fields, in the specification's words\<close>








definition weld_head_no_currency :: pydict where
  "weld_head_no_currency =
     [(''id'', PStr ''Weld_Head_Ag''), (''num_welds'', PInt 1000), (''unit_cost_usd'', PFloat 100)]"

definition weld_head_gbp_none :: pydict where
  "weld_head_gbp_none =
     [(''id'', PStr ''Weld_Head_Ag''), (''currency'', PStr ''GBP''), (''num_welds'', PInt 1000),
      (''unit_cost_gbp'', PNone)]"


section \<open>Catalog roles on the category pages and on the Cost Summary page\<close>

text \<open>
  A page's \<open>render\<close> ends in one of three ways: it raises, it shows an error message
  (\<open>st.error\<close>) and returns without a cost, or it goes on to compute. The first is
  \<open>Inl\<close> of the exception; the other two are \<open>Inr (Inl message)\<close> and \<open>Inr (Inr result)\<close>.
  (Where a page cannot raise before its checks, the result is just \<open>Inl message\<close> or
  \<open>Inr result\<close>.) The messages are shortened to their first words.
\<close>

text \<open>\<open>find_material_by_id\<close> of \<open>pages/cost_weld_heads.py\<close> (lines 7-11), and of
  \<open>pages/cost_summary.py\<close> (lines 92-98), which first returns \<open>None\<close> for a falsy id.\<close>

fun find_material_by_id_weld_heads ::
  "(pyval \<Rightarrow> string) \<Rightarrow> pydict list \<Rightarrow> pyval \<Rightarrow> pydict option" where
  "find_material_by_id_weld_heads S [] mat_id = None"
| "find_material_by_id_weld_heads S (item # items) mat_id =
     (if py_str S (dict_get item ''id'' (PStr '''')) = py_str S mat_id then Some item
      else find_material_by_id_weld_heads S items mat_id)"

definition find_material_by_id ::
  "(pyval \<Rightarrow> string) \<Rightarrow> pydict list \<Rightarrow> pyval \<Rightarrow> pydict option" where
  "find_material_by_id S items mat_id =
     (if \<not> truthy mat_id then None else find_material_by_id_weld_heads S items mat_id)"

text \<open>The list comprehension \<open>[it for it in packaging_items if
  str(it.get("type", "")).lower() == t]\<close>.\<close>

definition items_of_type :: "(pyval \<Rightarrow> string) \<Rightarrow> pydict list \<Rightarrow> string \<Rightarrow> pydict list" where
  "items_of_type S items t =
     filter (\<lambda>it. py_lower (py_str S (dict_get it ''type'' (PStr ''''))) = t) items"

text \<open>The loop over the foam items (\<open>cost_packaging.py\<close> lines 143-153, \<open>cost_summary.py\<close>
  lines 642-652): the last item of each thickness is kept.\<close>

definition foam_thickness :: "(string \<Rightarrow> real option) \<Rightarrow> pydict \<Rightarrow> real" where
  "foam_thickness P f =
     (case py_float P (dict_get f ''thickness_mm'' (PFloat 0.0)) of
        Inl e \<Rightarrow> 0.0
      | Inr th \<Rightarrow> th)"

fun foam_scan ::
  "(string \<Rightarrow> real option) \<Rightarrow> pydict list \<Rightarrow> pydict option \<Rightarrow> pydict option
     \<Rightarrow> pydict option \<times> pydict option" where
  "foam_scan P [] foam_3mm foam_25mm = (foam_3mm, foam_25mm)"
| "foam_scan P (f # fs) foam_3mm foam_25mm =
     (let th = foam_thickness P f in
      if \<bar>th - 3.0\<bar> < 1 / 1000 then foam_scan P fs (Some f) foam_25mm
      else if \<bar>th - 25.0\<bar> < 1 / 1000 then foam_scan P fs foam_3mm (Some f)
      else foam_scan P fs foam_3mm foam_25mm)"

subsection \<open>\<open>pages/cost_packaging.py\<close>, \<open>render\<close>, lines 106-159\<close>

record packaging_roles =
  role_frames :: "pydict list"
  role_boards :: "pydict list"
  role_boxes :: "pydict list"
  role_foam_3mm :: pydict
  role_foam_25mm :: pydict

definition packaging_page_roles ::
  "(pyval \<Rightarrow> string) \<Rightarrow> (string \<Rightarrow> real option) \<Rightarrow> pydict list \<Rightarrow> string + packaging_roles" where
  "packaging_page_roles S P packaging_items =
     (if packaging_items = [] then Inl ''No Packaging materials found.''
      else
        let frames = items_of_type S packaging_items ''frame'';
            boards = items_of_type S packaging_items ''shipping board'';
            foams = items_of_type S packaging_items ''foam'';
            boxes = items_of_type S packaging_items ''box''
        in if frames = [] then Inl ''No frames found in Packaging.''
           else if boards = [] then Inl ''No shipping boards found in Packaging.''
           else if foams = [] then Inl ''No foam items found in Packaging.''
           else if boxes = [] then Inl ''No box items found in Packaging.''
           else
             case foam_scan P foams None None of
               (Some foam_3mm, Some foam_25mm) \<Rightarrow>
                 Inr \<lparr> role_frames = frames, role_boards = boards, role_boxes = boxes,
                       role_foam_3mm = foam_3mm, role_foam_25mm = foam_25mm \<rparr>
             | _ \<Rightarrow> Inl ''Expected both 3mm and 25mm foam in Packaging.'')"

subsection \<open>\<open>pages/cost_weld_heads.py\<close>, \<open>render\<close>, lines 67-154\<close>

record weld_heads_cost =
  wh_ag_breakdown :: ag_weld_breakdown
  wh_total_welds_all_heads :: int
  wh_total_cost_all_heads :: real

definition weld_heads_page ::
  "(pyval \<Rightarrow> string) \<Rightarrow> (string \<Rightarrow> real option) \<Rightarrow> pydict list \<Rightarrow> real \<Rightarrow> int
     \<Rightarrow> pyexn + (string + weld_heads_cost)" where
  "weld_heads_page S P weld_items exchange_rate cells =
     (if weld_items = [] then Inr (Inl ''No weld head materials found.'')
      else
        let weld_head_ag = find_material_by_id_weld_heads S weld_items (PStr ''Weld_Head_Ag'');
            weld_head_al = find_material_by_id_weld_heads S weld_items (PStr ''Weld_Head_Al'');
            weld_head_au = find_material_by_id_weld_heads S weld_items (PStr ''Weld_Head_Au'');
            weld_head_bl = find_material_by_id_weld_heads S weld_items (PStr ''Weld_Head_BL'')
        in if weld_head_ag = None
           then Inr (Inl ''Weld_Head_Ag not found in Weld heads materials.'')
           else
             py_bind (get_weld_cost_per_weld_weld_heads P weld_head_ag exchange_rate) (\<lambda>cost_per_weld_ag.
             py_bind (get_weld_cost_per_weld_weld_heads P weld_head_al exchange_rate) (\<lambda>cost_per_weld_al.
             py_bind (get_weld_cost_per_weld_weld_heads P weld_head_au exchange_rate) (\<lambda>cost_per_weld_au.
             py_bind (get_weld_cost_per_weld_weld_heads P weld_head_bl exchange_rate) (\<lambda>cost_per_weld_bl.
               if cells \<le> 0 then Inr (Inl ''Array design has invalid number of cells.'')
               else
                 let b = weld_heads_page_ag_welds cells;
                     total_ag_welds = ag_welds_per_array b;
                     total_al_welds = cells;
                     total_au_welds = cells;
                     total_bl_welds = 2 * 2
                 in Inr (Inr \<lparr> wh_ag_breakdown = b,
                        wh_total_welds_all_heads =
                          total_al_welds + total_au_welds + total_bl_welds + total_ag_welds,
                        wh_total_cost_all_heads =
                          real_of_int total_al_welds * cost_per_weld_al
                          + real_of_int total_au_welds * cost_per_weld_au
                          + real_of_int total_bl_welds * cost_per_weld_bl
                          + real_of_int total_ag_welds * cost_per_weld_ag \<rparr>))))))"

subsection \<open>\<open>pages/cost_summary.py\<close>, \<open>render\<close>: the Weld heads block (lines 482-500) and
  the Packaging block (lines 622-682)\<close>

definition summary_weld_heads_cost ::
  "(pyval \<Rightarrow> string) \<Rightarrow> (string \<Rightarrow> real option) \<Rightarrow> pydict list \<Rightarrow> real \<Rightarrow> int \<Rightarrow> pyexn + real" where
  "summary_weld_heads_cost S P weld_items exchange_rate n =
     (if weld_items = [] then Inr 0.0
      else
        case find_material_by_id S weld_items (PStr ''Weld_Head_Ag'') of
          None \<Rightarrow> Inr 0.0
        | Some weld_head_ag \<Rightarrow>
            if weld_head_ag = [] then Inr 0.0
            else
              py_bind (get_weld_cost_per_weld_summary P weld_head_ag exchange_rate)
                (\<lambda>cost_per_weld_ag.
                   Inr (real_of_int (ag_welds_per_array (summary_ag_welds n)) * cost_per_weld_ag)))"

text \<open>Python indexing of a list: a negative index counts from the end, an index out of
  range raises \<open>IndexError\<close>.\<close>

definition py_index :: "'a list \<Rightarrow> int \<Rightarrow> pyexn + 'a" where
  "py_index xs i =
     (if 0 \<le> i \<and> i < int (length xs) then Inr (xs ! nat i)
      else if i < 0 \<and> - int (length xs) \<le> i then Inr (xs ! nat (int (length xs) + i))
      else Inl IndexError)"

text \<open>The stored selection \<open>cost_packaging_state\<close>; its default is the one of line 626.\<close>

record pack_state =
  frame_idx :: int
  board_idx :: int
  box_idx :: int
  arrays_per_box :: int

definition default_pack_state :: pack_state where
  "default_pack_state = \<lparr> frame_idx = 0, board_idx = 0, box_idx = 0, arrays_per_box = 4 \<rparr>"

definition summary_packaging_cost ::
  "(pyval \<Rightarrow> string) \<Rightarrow> (string \<Rightarrow> real option) \<Rightarrow> pydict list \<Rightarrow> pack_state \<Rightarrow> real
     \<Rightarrow> pyexn + real" where
  "summary_packaging_cost S P packaging_items st exchange_rate =
     (if packaging_items = [] then Inr 0.0
      else
        let frames = items_of_type S packaging_items ''frame'';
            boards = items_of_type S packaging_items ''shipping board'';
            foams = items_of_type S packaging_items ''foam'';
            boxes = items_of_type S packaging_items ''box''
        in if frames = [] \<or> boards = [] \<or> foams = [] \<or> boxes = [] then Inr 0.0
           else
             case foam_scan P foams None None of
               (Some foam_3mm, Some foam_25mm) \<Rightarrow>
                 if foam_3mm = [] \<or> foam_25mm = [] then Inr 0.0
                 else
                   py_bind (py_index frames (min (frame_idx st) (int (length frames) - 1))) (\<lambda>frame_item.
                   py_bind (py_index boards (min (board_idx st) (int (length boards) - 1))) (\<lambda>board_item.
                   py_bind (py_index boxes (min (box_idx st) (int (length boxes) - 1))) (\<lambda>box_item.
                   py_bind (get_unit_cost_gbp P frame_item exchange_rate) (\<lambda>frame_cost.
                   py_bind (get_unit_cost_gbp P board_item exchange_rate) (\<lambda>board_cost.
                   py_bind (get_unit_cost_gbp P box_item exchange_rate) (\<lambda>box_cost.
                   py_bind (get_foam_cost_per_piece P foam_25mm exchange_rate) (\<lambda>foam_25_cost_piece.
                   py_bind (get_foam_cost_per_piece P foam_3mm exchange_rate) (\<lambda>foam_3_cost_piece.
                     let foam_25_pieces = 2;
                         foam_3_pieces = max (arrays_per_box st - 1) 0;
                         foam_25_cost_box = foam_25_cost_piece * foam_25_pieces;
                         foam_3_cost_box = foam_3_cost_piece * real_of_int foam_3_pieces;
                         foam_cost_box = foam_25_cost_box + foam_3_cost_box;
                         frame_board_per_array = frame_cost + board_cost;
                         shared_per_box = box_cost + foam_cost_box
                     in py_bind (py_div shared_per_box (real_of_int (arrays_per_box st)))
                          (\<lambda>shared_per_array. Inr (frame_board_per_array + shared_per_array))))))))))
             | _ \<Rightarrow> Inr 0.0)"

text \<open>The two blocks in the order of \<open>render\<close>: the pair of
  \<open>weld_heads_cost_total\<close> and \<open>packaging_cost_total\<close>.\<close>

definition summary_weld_heads_and_packaging ::
  "(pyval \<Rightarrow> string) \<Rightarrow> (string \<Rightarrow> real option) \<Rightarrow> pydict list \<Rightarrow> pydict list \<Rightarrow> pack_state
     \<Rightarrow> real \<Rightarrow> int \<Rightarrow> pyexn + (real \<times> real)" where
  "summary_weld_heads_and_packaging S P weld_items packaging_items st exchange_rate n =
     py_bind (summary_weld_heads_cost S P weld_items exchange_rate n) (\<lambda>weld_heads_cost_total.
     py_bind (summary_packaging_cost S P packaging_items st exchange_rate) (\<lambda>packaging_cost_total.
     Inr (weld_heads_cost_total, packaging_cost_total)))"

text \<open>A sample catalog: a priced Ag weld head, and packaging with a frame, a board, a box
  and 25 mm foam, but no 3 mm foam.\<close>

definition sample_weld_items :: "pydict list" where
  "sample_weld_items =
     [[(''id'', PStr ''Weld_Head_Ag''), (''currency'', PStr ''GBP''), (''num_welds'', PInt 1000),
       (''unit_cost_gbp'', PFloat 50)]]"

definition sample_packaging_no_3mm :: "pydict list" where
  "sample_packaging_no_3mm =
     [[(''id'', PStr ''F1''), (''type'', PStr ''Frame''), (''unit_cost_gbp'', PFloat 2)],
      [(''id'', PStr ''B1''), (''type'', PStr ''Shipping board''), (''unit_cost_gbp'', PFloat 1)],
      [(''id'', PStr ''X1''), (''type'', PStr ''Box''), (''unit_cost_gbp'', PFloat 4)],
      [(''id'', PStr ''Foam_25''), (''type'', PStr ''Foam''), (''thickness_mm'', PFloat 25.0),
       (''currency'', PStr ''GBP''), (''total_cost_gbp'', PFloat 10), (''num_pieces'', PInt 20)]]"

definition sample_weld_items_no_ag :: "pydict list" where
  "sample_weld_items_no_ag =
     [[(''id'', PStr ''Weld_Head_Al''), (''currency'', PStr ''GBP''), (''num_welds'', PInt 1000),
       (''unit_cost_gbp'', PFloat 50)]]"

section \<open>Theorems\<close>

lemma get_or_simps:
  "get_or None d = d" "get_or (Some v) d = v"
  by (simp_all add: get_or_def)

text \<open>
  C4. For every design record and each illumination condition, the power function returns
  \<open>P_cell = (efficiency_percent / 100) * irradiance * 0.002\<close>, with irradiance 1000 for
  AM1.5 and 1366 for AM0, and \<open>P_array\<close> is exactly \<open>P_cell * num_cells\<close>. A key that is
  absent from the design reads as 0.
\<close>

theorem power_formula:
  "P_cell_AM15_W (compute_power_for_design d)
     = (get_or (eff_am15_percent d) 0 / 100) * 1000 * 0.002
   \<and> P_cell_AM0_W (compute_power_for_design d)
     = (get_or (eff_am0_percent d) 0 / 100) * 1366 * 0.002
   \<and> P_array_AM15_W (compute_power_for_design d)
     = P_cell_AM15_W (compute_power_for_design d) * real_of_int (get_or (num_cells d) 0)
   \<and> P_array_AM0_W (compute_power_for_design d)
     = P_cell_AM0_W (compute_power_for_design d) * real_of_int (get_or (num_cells d) 0)"
  by (simp add: compute_power_for_design_def Let_def CELL_AREA_M2_def CELL_AREA_CM2_def
      IRRADIANCE_AM15_def IRRADIANCE_AM0_def)

text \<open>
  C5 (as amended). For every design, the base length in mm is
  \<open>positive_end_gap + negative_end_gap + num_cells * cell_height + max(num_cells - 1, 0) * gap\<close>
  and the perimeter length is \<open>2 * base_length + 140\<close>, on the scenario table of the Home
  page and on the Cost Summary page (which stops with a message when \<open>num_cells\<close> is not
  positive). For \<open>num_cells = 20\<close>, \<open>cell_height = 6.6\<close>, \<open>gap = 1.0\<close> and both end gaps
  \<open>5.0\<close> the base length is 161 mm and the perimeter 462 mm.
\<close>

theorem base_length_and_perimeter:
  "fst (compute_base_length_m d n)
     = get_or (positive_end_gap_mm d) 0 + get_or (negative_end_gap_mm d) 0
       + real_of_int n * get_or (cell_height_mm d) 0
       + real_of_int (max (n - 1) 0) * get_or (gap_between_cells_mm d) 0
   \<and> home_perimeter_length_mm d n = 2 * fst (compute_base_length_m d n) + 140
   \<and> summary_geometry d
     = (if get_or (num_cells d) 0 \<le> 0 then Inl ''Array design has invalid number of cells.''
        else Inr (fst (compute_base_length_m d (get_or (num_cells d) 0)),
                  2 * fst (compute_base_length_m d (get_or (num_cells d) 0)) + 140))
   \<and> fst (compute_base_length_m design_20 20) = 161
   \<and> home_perimeter_length_mm design_20 20 = 462
   \<and> summary_geometry design_20 = Inr (161, 462)"
  by (simp add: compute_base_length_m_def home_perimeter_length_mm_def summary_geometry_def
      Let_def design_20_def get_or_simps)

text \<open>
  C5 as stated gives 151 mm and 442 mm for that design. The code computes
  \<open>6.6 * 20 + 1.0 * 19 + 5.0 + 5.0 = 161\<close> and \<open>2 * 161 + 140 = 462\<close>.
\<close>

theorem base_length_example_counterexample:
  "fst (compute_base_length_m design_20 20) \<noteq> 151
   \<and> home_perimeter_length_mm design_20 20 \<noteq> 442
   \<and> summary_geometry design_20 \<noteq> Inr (151, 442)"
  by (simp add: compute_base_length_m_def home_perimeter_length_mm_def summary_geometry_def
      Let_def design_20_def get_or_simps)



subsection \<open>Weld counts and bypass diodes\<close>

text \<open>
  C1. The claim asks every code path to give, per array, top-tab welds
  \<open>2 * (num_cells - 1) * 4\<close>, negative-end welds 8, positive-end welds 4 and
  bypass-diode-attach welds \<open>num_cells * 4\<close>. The Cost Summary page and the scenario table
  of the Home page do; the Weld Heads page counts \<open>num_cells * 2\<close> bypass-diode-attach
  welds. For 20 cells that is 40 against 80, and 204 Ag welds per array against 244.
\<close>

theorem ag_weld_counts_by_page:
  "summary_ag_welds n
     = \<lparr> top_tab_welds = 2 * (n - 1) * 4, negative_end_welds = 8, positive_end_welds = 4,
         bypass_diode_welds = n * 4 \<rparr>
   \<and> home_ag_welds n = summary_ag_welds n
   \<and> weld_heads_page_ag_welds n
     = \<lparr> top_tab_welds = 2 * (n - 1) * 4, negative_end_welds = 8, positive_end_welds = 4,
         bypass_diode_welds = n * 2 \<rparr>
   \<and> bypass_diode_welds (weld_heads_page_ag_welds 20) = 40
   \<and> bypass_diode_welds (summary_ag_welds 20) = 80
   \<and> ag_welds_per_array (weld_heads_page_ag_welds 20) = 204
   \<and> ag_welds_per_array (summary_ag_welds 20) = 244"
  by (simp add: summary_ag_welds_def home_ag_welds_def weld_heads_page_ag_welds_def
      ag_welds_per_array_def Let_def)

text \<open>
  C6. For \<open>num_cells \<ge> 1\<close> and a yield fraction \<open>0 < y \<le> 1\<close> (entered as the percentage
  \<open>100 * y\<close>), the bypass-diode calculator of the Diodes page and of the Cost Summary page
  computes \<open>silver_cost = 2 * tab_length * silver_cost_per_mm\<close>,
  \<open>effective_cost = (diode_price + silver_cost + one Al weld + one Au weld) / y\<close> and
  \<open>total = effective_cost * num_cells\<close>.
\<close>

theorem bypass_diode_cost:
  assumes "1 \<le> n" and "0 < y" and "y \<le> 1"
  shows "diodes_page_bypass price cpm tab_len w_al w_au (100 * y) n
           = Inr \<lparr> dc_silver_cost = 2 * tab_len * cpm,
                   dc_raw_cost = price + 2 * tab_len * cpm + (w_al + w_au),
                   dc_effective_cost = (price + 2 * tab_len * cpm + (w_al + w_au)) / y,
                   dc_total_cost = (price + 2 * tab_len * cpm + (w_al + w_au)) / y * real_of_int n \<rparr>
       \<and> summary_bypass price cpm tab_len w_al w_au (100 * y) n
           = diodes_page_bypass price cpm tab_len w_al w_au (100 * y) n"
  using assms
  by (simp add: diodes_page_bypass_def summary_bypass_def py_div_def Let_def algebra_simps)

text \<open>The specification's scenario: diode price 0.10, tab length 5 mm, silver 0.00005 per
  mm, welds 0.001 each, yield 80 percent and 20 cells give a total of 2.5625.\<close>

theorem bypass_diode_cost_witness:
  "diodes_page_bypass 0.10 0.00005 5 0.001 0.001 80 20
     = Inr \<lparr> dc_silver_cost = 0.0005, dc_raw_cost = 0.1025, dc_effective_cost = 0.128125,
             dc_total_cost = 2.5625 \<rparr>
   \<and> summary_bypass 0.10 0.00005 5 0.001 0.001 80 20
     = Inr \<lparr> dc_silver_cost = 0.0005, dc_raw_cost = 0.1025, dc_effective_cost = 0.128125,
             dc_total_cost = 2.5625 \<rparr>"
  using bypass_diode_cost [where n = 20 and y = "0.8" and price = "0.10" and cpm = "0.00005"
      and tab_len = 5 and w_al = "0.001" and w_au = "0.001"] by simp

subsection \<open>Labour aggregation\<close>

lemma py_lower_literals:
  "py_lower ''per_array'' = ''per_array''" "py_lower ''PER_UNIT'' = ''per_unit''"
  by (simp_all add: py_lower_def lower_char_def get_or_def)

lemma map_of_qty_map:
  "get_or (map_of (qty_map cps spa byp blk) src) 0 = spec_quantity cps spa byp blk src"
  by (simp add: qty_map_def spec_quantity_def get_or_def Let_def)

lemma spec_yield_nonzero: "spec_yield s \<noteq> 0"
  by (simp add: spec_yield_def)

lemma sum_list_scale:
  "sum_list (map (\<lambda>p. hourly_rate p * (h::real)) ps) = h * sum_list (map hourly_rate ps)"
  by (induction ps) (simp_all add: algebra_simps)

lemma labour_step_total:
  "\<exists>r. labour_step ops (qty_map cps spa byp blk) s = Inr r
       \<and> res_total_step_seconds r = spec_step_seconds cps spa byp blk s
       \<and> res_operator_hours r = spec_step_seconds cps spa byp blk s / 3600
       \<and> res_cost r = spec_step_cost ops cps spa byp blk s"
  using spec_yield_nonzero [of s]
  by (auto simp add: labour_step_def Let_def py_div_def map_of_qty_map spec_step_seconds_def
      spec_step_cost_def spec_yield_def sum_list_scale split: if_splits)


lemma labour_loop_total:
  "\<exists>res. labour_loop ops (qty_map cps spa byp blk) ss results c h = Inr res
       \<and> map res_total_step_seconds (lr_steps res)
           = map res_total_step_seconds results @ map (spec_step_seconds cps spa byp blk) ss
       \<and> map res_cost (lr_steps res)
           = map res_cost results @ map (spec_step_cost ops cps spa byp blk) ss
       \<and> lr_total_cost res = c + sum_list (map (spec_step_cost ops cps spa byp blk) ss)
       \<and> lr_total_hours res
           = h + sum_list (map (\<lambda>s. spec_step_seconds cps spa byp blk s / 3600) ss)"
proof (induction ss arbitrary: results c h)
  case Nil
  show ?case by simp
next
  case (Cons s ss)
  obtain r where r: "labour_step ops (qty_map cps spa byp blk) s = Inr r"
    and secs: "res_total_step_seconds r = spec_step_seconds cps spa byp blk s"
    and hours: "res_operator_hours r = spec_step_seconds cps spa byp blk s / 3600"
    and cost: "res_cost r = spec_step_cost ops cps spa byp blk s"
    using labour_step_total [of ops cps spa byp blk s] by blast
  have unfold_step:
    "labour_loop ops (qty_map cps spa byp blk) (s # ss) results c h
       = labour_loop ops (qty_map cps spa byp blk) ss (results @ [r])
           (c + spec_step_cost ops cps spa byp blk s)
           (h + spec_step_seconds cps spa byp blk s / 3600)"
    by (simp add: r cost hours)
  from Cons.IH [of "results @ [r]" "c + spec_step_cost ops cps spa byp blk s"
      "h + spec_step_seconds cps spa byp blk s / 3600"]
  obtain res where res:
    "labour_loop ops (qty_map cps spa byp blk) ss (results @ [r])
       (c + spec_step_cost ops cps spa byp blk s)
       (h + spec_step_seconds cps spa byp blk s / 3600) = Inr res"
    "map res_total_step_seconds (lr_steps res)
       = map res_total_step_seconds (results @ [r]) @ map (spec_step_seconds cps spa byp blk) ss"
    "map res_cost (lr_steps res)
       = map res_cost (results @ [r]) @ map (spec_step_cost ops cps spa byp blk) ss"
    "lr_total_cost res
       = c + spec_step_cost ops cps spa byp blk s
         + sum_list (map (spec_step_cost ops cps spa byp blk) ss)"
    "lr_total_hours res
       = h + spec_step_seconds cps spa byp blk s / 3600
         + sum_list (map (\<lambda>s. spec_step_seconds cps spa byp blk s / 3600) ss)"
    by blast
  show ?case
    unfolding unfold_step
    by (intro exI [of _ res]) (simp add: res secs cost)
qed

lemma labour_step_clamped:
  "labour_step ops q (with_clamped_yield s) = labour_step ops q s"
  by (auto simp add: labour_step_def with_clamped_yield_def get_or_simps Let_def
      split: sum.splits)

lemma labour_loop_clamped:
  "labour_loop ops q (map with_clamped_yield ss) results c h = labour_loop ops q ss results c h"
  by (induction ss arbitrary: results c h) (simp_all add: labour_step_clamped split: sum.splits)

text \<open>
  C8. For every list of process steps the whole-process aggregation returns (it raises
  nothing), and in its result each step's total seconds are
  \<open>(quantity_for_source / yield_fraction) * time_per_unit_s + setup_time_s_per_array\<close>
  when the timing basis is \<open>per_unit\<close>, \<open>time_per_unit_s + setup_time_s_per_array\<close> when
  it is \<open>per_array\<close>, and 0 for any other basis; each step's cost is its total seconds
  over 3600 times the sum of the hourly rates of its assigned operators; the total
  hours and the total cost are the sums over the steps. The timing basis is compared
  after \<open>lower()\<close>, and the yield fraction is the one used in computation (1 when the
  stored one is not positive).
\<close>

theorem calculate_labour_aggregation:
  "\<exists>res. calculate_labour ss ops cps spa byp blk = Inr res
       \<and> map res_total_step_seconds (lr_steps res) = map (spec_step_seconds cps spa byp blk) ss
       \<and> map res_cost (lr_steps res) = map (spec_step_cost ops cps spa byp blk) ss
       \<and> lr_total_hours res
           = sum_list (map (\<lambda>s. spec_step_seconds cps spa byp blk s / 3600) ss)
       \<and> lr_total_cost res = sum_list (map (spec_step_cost ops cps spa byp blk) ss)"
  using labour_loop_total [of ops cps spa byp blk ss "[]" 0 0]
  by (auto simp add: calculate_labour_def)

lemma calculate_labour_example:
  "calculate_labour [welding_step\<lparr> yield_fraction := Some 0.5 \<rparr>] one_operator 20 4 80 2
     = Inr \<lparr> lr_steps =
               [\<lparr> res_id = ''weld'', res_name = ''Weld tabs'', res_timing_basis = ''per_unit'',
                  res_quantity_source = ''cells'', res_units_per_array = 80,
                  res_time_per_unit_s = 30, res_setup_time_s_per_array = 60,
                  res_total_step_seconds = 4860, res_operator_hours = 1.35, res_cost = 48.6,
                  res_assigned_operators =
                    [\<lparr> op_id = ''op1'', op_name = ''A'', job_title = ''Technician'',
                       hourly_rate = 36 \<rparr>],
                  res_notes = [] \<rparr>],
             lr_total_cost = 48.6, lr_total_hours = 1.35 \<rparr>"
  by (simp add: calculate_labour_def labour_step_def qty_map_def welding_step_def
      one_operator_def py_div_def get_or_def py_lower_def lower_char_def Let_def)

subsection \<open>Yield fractions that are not positive\<close>

text \<open>
  C2 (as amended). In the labour aggregation a stored yield fraction \<open>y \<le> 0\<close> is replaced
  by 1 before use: a step with such a yield gives the same result as the step with yield
  1, for a single step and for a whole list of steps, and the aggregation always returns.
  In the bypass-diode and blocking-diode calculators a yield that is not positive is not
  replaced by 1: the guard \<open>if yield > 0 ... else 0.0\<close> makes the effective cost, and so
  the total, 0.0. None of the three divides by zero or raises.
\<close>

theorem nonpositive_yield:
  assumes "y \<le> 0" and "p \<le> 0"
  shows "labour_step ops q (s\<lparr> yield_fraction := Some y \<rparr>)
           = labour_step ops q (s\<lparr> yield_fraction := Some 1 \<rparr>)
       \<and> calculate_labour (map with_clamped_yield ss) ops cps spa byp blk
           = calculate_labour ss ops cps spa byp blk
       \<and> (\<exists>res. calculate_labour ss ops cps spa byp blk = Inr res)
       \<and> summary_bypass price cpm len al au p n
           = Inr \<lparr> dc_silver_cost = cpm * (2 * len), dc_raw_cost = price + cpm * (2 * len) + (al + au),
                   dc_effective_cost = 0, dc_total_cost = 0 \<rparr>
       \<and> diodes_page_bypass price cpm len al au p n
           = Inr \<lparr> dc_silver_cost = cpm * (2 * len), dc_raw_cost = price + cpm * (2 * len) + (al + au),
                   dc_effective_cost = 0, dc_total_cost = 0 \<rparr>
       \<and> summary_blocking price cpm len_a len_b bl p
           = Inr \<lparr> dc_silver_cost = cpm * (len_a + len_b),
                   dc_raw_cost = price + cpm * (len_a + len_b) + 2 * bl,
                   dc_effective_cost = 0, dc_total_cost = 0 \<rparr>"
proof -
  have step: "labour_step ops q (s\<lparr> yield_fraction := Some y \<rparr>)
                = labour_step ops q (s\<lparr> yield_fraction := Some 1 \<rparr>)"
    using assms(1) by (auto simp add: labour_step_def get_or_simps Let_def split: sum.splits)
  have whole: "calculate_labour (map with_clamped_yield ss) ops cps spa byp blk
                 = calculate_labour ss ops cps spa byp blk"
    by (simp add: calculate_labour_def labour_loop_clamped)
  have returns: "\<exists>res. calculate_labour ss ops cps spa byp blk = Inr res"
    using labour_loop_total [of ops cps spa byp blk ss "[]" 0 0]
    by (auto simp add: calculate_labour_def)
  have diodes:
    "summary_bypass price cpm len al au p n
       = Inr \<lparr> dc_silver_cost = cpm * (2 * len), dc_raw_cost = price + cpm * (2 * len) + (al + au),
               dc_effective_cost = 0, dc_total_cost = 0 \<rparr>"
    "diodes_page_bypass price cpm len al au p n
       = Inr \<lparr> dc_silver_cost = cpm * (2 * len), dc_raw_cost = price + cpm * (2 * len) + (al + au),
               dc_effective_cost = 0, dc_total_cost = 0 \<rparr>"
    "summary_blocking price cpm len_a len_b bl p
       = Inr \<lparr> dc_silver_cost = cpm * (len_a + len_b),
               dc_raw_cost = price + cpm * (len_a + len_b) + 2 * bl,
               dc_effective_cost = 0, dc_total_cost = 0 \<rparr>"
    using assms(2)
    by (simp_all add: summary_bypass_def diodes_page_bypass_def summary_blocking_def Let_def)
  from step whole returns diodes show ?thesis by blast
qed

text \<open>At a step with stored yield 0 and at a bypass yield of 0 percent.\<close>

theorem nonpositive_yield_witness:
  "labour_step one_operator (qty_map 20 4 80 2) welding_step
     = labour_step one_operator (qty_map 20 4 80 2) (welding_step\<lparr> yield_fraction := Some 1 \<rparr>)
   \<and> (\<exists>res. calculate_labour [welding_step] one_operator 20 4 80 2 = Inr res)
   \<and> summary_bypass 0.1 0.00005 5 0.001 0.001 0 20
     = Inr \<lparr> dc_silver_cost = 0.0005, dc_raw_cost = 0.1025, dc_effective_cost = 0,
             dc_total_cost = 0 \<rparr>"
  using nonpositive_yield [where y = 0 and p = 0 and ops = one_operator
      and q = "qty_map 20 4 80 2" and s = welding_step and ss = "[welding_step]"
      and cps = 20 and spa = 4 and byp = 80 and blk = 2
      and price = "0.1" and cpm = "0.00005" and len = 5 and al = "0.001" and au = "0.001"
      and n = 20 and len_a = 0 and len_b = 0 and bl = 0]
  by (simp add: welding_step_def)

text \<open>
  C2 as stated asks the bypass-diode effective cost at yield 0 to equal the one at yield
  1 (100 percent). The Cost Summary page gives a total of 0 at yield 0 and 2.05 at yield
  100 percent for the same inputs.
\<close>

theorem yield_zero_counterexample:
  "summary_bypass 0.1 0.00005 5 0.001 0.001 0 20
     = Inr \<lparr> dc_silver_cost = 0.0005, dc_raw_cost = 0.1025, dc_effective_cost = 0,
             dc_total_cost = 0 \<rparr>
   \<and> summary_bypass 0.1 0.00005 5 0.001 0.001 100 20
     = Inr \<lparr> dc_silver_cost = 0.0005, dc_raw_cost = 0.1025, dc_effective_cost = 0.1025,
             dc_total_cost = 2.05 \<rparr>
   \<and> summary_bypass 0.1 0.00005 5 0.001 0.001 0 20
     \<noteq> summary_bypass 0.1 0.00005 5 0.001 0.001 100 20"
  by (simp add: summary_bypass_def py_div_def Let_def)

subsection \<open>Unit-cost resolvers\<close>

lemmas py_eval = dict_get_def dict_has_def get_or_def py_or_def currency_field_def py_bind_def
  except_tv_def except_all_def type_or_value_error_def py_div_def py_upper_def upper_char_def
  py_lower_def lower_char_def Let_def






















lemma dict_has_get: "dict_has item k = (\<exists>v. map_of item k = Some v)"
  by (simp add: dict_has_def split: option.splits)









text \<open>
  C10. The claim asks the three copies of \<open>get_weld_cost_per_weld\<close> to return the same
  cost for every weld-head record. For a record with \<open>num_welds = 1000\<close> and
  \<open>unit_cost_usd = 100\<close> that has no currency field, at the rate 0.8, the copies of the
  Diodes page and of the Weld Heads page return 0.08 and the copy of the Cost Summary page
  returns 0.0. For a record in GBP whose \<open>unit_cost_gbp\<close> is \<open>None\<close> the copies of the
  Diodes page and of the Cost Summary page return 0.0 and the copy of the Weld Heads page
  raises \<open>TypeError\<close>.
\<close>

theorem weld_cost_variants_differ:
  "get_weld_cost_per_weld_diodes P weld_head_no_currency 0.8 = Inr 0.08
   \<and> get_weld_cost_per_weld_weld_heads P (Some weld_head_no_currency) 0.8 = Inr 0.08
   \<and> get_weld_cost_per_weld_summary P weld_head_no_currency 0.8 = Inr 0
   \<and> get_weld_cost_per_weld_diodes P weld_head_gbp_none 0.8 = Inr 0
   \<and> get_weld_cost_per_weld_summary P weld_head_gbp_none 0.8 = Inr 0
   \<and> get_weld_cost_per_weld_weld_heads P (Some weld_head_gbp_none) 0.8 = Inl TypeError"
  by (simp add: get_weld_cost_per_weld_diodes_def get_weld_cost_per_weld_weld_heads_def
      get_weld_cost_per_weld_summary_def weld_total_cost_gbp_def weld_head_no_currency_def
      weld_head_gbp_none_def py_eval)

subsection \<open>Absent catalog roles\<close>

lemma find_summary_none:
  "find_material_by_id_weld_heads S items m = None \<Longrightarrow> find_material_by_id S items m = None"
  by (simp add: find_material_by_id_def)

lemma packaging_page_absent_foam:
  assumes "fst (foam_scan P (items_of_type S packaging_items ''foam'') None None) = None
      \<or> snd (foam_scan P (items_of_type S packaging_items ''foam'') None None) = None"
  shows "\<exists>msg. packaging_page_roles S P packaging_items = Inl msg"
  using assms
  by (auto simp add: packaging_page_roles_def Let_def split: prod.splits option.splits)

lemma summary_packaging_absent_foam:
  assumes "fst (foam_scan P (items_of_type S packaging_items ''foam'') None None) = None
      \<or> snd (foam_scan P (items_of_type S packaging_items ''foam'') None None) = None"
  shows "summary_packaging_cost S P packaging_items st r = Inr 0"
  using assms
  by (auto simp add: summary_packaging_cost_def Let_def split: prod.splits option.splits)

lemma summary_weld_heads_absent_ag:
  assumes "find_material_by_id_weld_heads S weld_items (PStr ''Weld_Head_Ag'') = None"
  shows "summary_weld_heads_cost S P weld_items r n = Inr 0"
  using assms by (simp add: summary_weld_heads_cost_def find_summary_none)

lemmas role_eval = dict_get_def dict_has_def get_or_def py_or_def currency_field_def py_bind_def
  except_tv_def except_all_def type_or_value_error_def py_div_def py_upper_def upper_char_def
  py_lower_def lower_char_def Let_def py_str_def items_of_type_def foam_thickness_def

lemma sample_scan:
  "foam_scan P (items_of_type S sample_packaging_no_3mm ''foam'') None None
     = (None, Some (sample_packaging_no_3mm ! 3))"
  by (simp add: sample_packaging_no_3mm_def role_eval)

lemma sample_find_ag:
  "find_material_by_id_weld_heads S sample_weld_items (PStr ''Weld_Head_Ag'')
     = Some (sample_weld_items ! 0)"
  "find_material_by_id_weld_heads S sample_weld_items_no_ag (PStr ''Weld_Head_Ag'') = None"
  by (simp_all add: sample_weld_items_def sample_weld_items_no_ag_def role_eval)

text \<open>
  C9 (as amended). When the loop over the foam items finds no foam of 3.0 mm or none of
  25.0 mm (tolerance 0.001; an empty Packaging list is such a case), the Packaging page
  shows an error message and computes no cost, while the Cost Summary page reports no
  error: its packaging cost is 0.0 and its weld-heads cost is computed as it would be
  otherwise. When no weld head has the id \<open>Weld_Head_Ag\<close> (an empty Weld heads list is
  such a case), the Weld Heads page shows an error message and computes no cost, while
  the Cost Summary page reports no error: its weld-heads cost is 0.0 and its packaging
  cost is computed as it would be otherwise.
\<close>

theorem absent_role_handling:
  "(fst (foam_scan P (items_of_type S packaging_items ''foam'') None None) = None
      \<or> snd (foam_scan P (items_of_type S packaging_items ''foam'') None None) = None
    \<longrightarrow> (\<exists>msg. packaging_page_roles S P packaging_items = Inl msg)
        \<and> summary_packaging_cost S P packaging_items st r = Inr 0
        \<and> summary_weld_heads_and_packaging S P weld_items packaging_items st r n
            = py_bind (summary_weld_heads_cost S P weld_items r n) (\<lambda>c. Inr (c, 0)))
   \<and> (find_material_by_id_weld_heads S weld_items (PStr ''Weld_Head_Ag'') = None
    \<longrightarrow> (\<exists>msg. weld_heads_page S P weld_items r n = Inr (Inl msg))
        \<and> summary_weld_heads_cost S P weld_items r n = Inr 0
        \<and> summary_weld_heads_and_packaging S P weld_items packaging_items st r n
            = py_bind (summary_packaging_cost S P packaging_items st r) (\<lambda>c. Inr (0, c)))"
proof (intro conjI impI)
  assume a: "fst (foam_scan P (items_of_type S packaging_items ''foam'') None None) = None
      \<or> snd (foam_scan P (items_of_type S packaging_items ''foam'') None None) = None"
  show "\<exists>msg. packaging_page_roles S P packaging_items = Inl msg"
    by (rule packaging_page_absent_foam [OF a])
  show "summary_packaging_cost S P packaging_items st r = Inr 0"
    by (rule summary_packaging_absent_foam [OF a])
  show "summary_weld_heads_and_packaging S P weld_items packaging_items st r n
            = py_bind (summary_weld_heads_cost S P weld_items r n) (\<lambda>c. Inr (c, 0))"
    by (simp add: summary_weld_heads_and_packaging_def summary_packaging_absent_foam [OF a]
        py_bind_def)
next
  assume a: "find_material_by_id_weld_heads S weld_items (PStr ''Weld_Head_Ag'') = None"
  show "\<exists>msg. weld_heads_page S P weld_items r n = Inr (Inl msg)"
    using a by (simp add: weld_heads_page_def Let_def)
  show "summary_weld_heads_cost S P weld_items r n = Inr 0"
    by (rule summary_weld_heads_absent_ag [OF a])
  show "summary_weld_heads_and_packaging S P weld_items packaging_items st r n
            = py_bind (summary_packaging_cost S P packaging_items st r) (\<lambda>c. Inr (0, c))"
    by (simp add: summary_weld_heads_and_packaging_def summary_weld_heads_absent_ag [OF a]
        py_bind_def)
qed

text \<open>At a Packaging list without 3 mm foam and a Weld heads list without
  \<open>Weld_Head_Ag\<close>.\<close>

theorem absent_role_handling_witness:
  "(\<exists>msg. packaging_page_roles (\<lambda>v. []) (\<lambda>s. None) sample_packaging_no_3mm = Inl msg)
   \<and> summary_packaging_cost (\<lambda>v. []) (\<lambda>s. None) sample_packaging_no_3mm default_pack_state 0.8
       = Inr 0
   \<and> (\<exists>msg. weld_heads_page (\<lambda>v. []) (\<lambda>s. None) sample_weld_items_no_ag 0.8 20 = Inr (Inl msg))
   \<and> summary_weld_heads_cost (\<lambda>v. []) (\<lambda>s. None) sample_weld_items_no_ag 0.8 20 = Inr 0"
  using absent_role_handling [where S = "\<lambda>v. []" and P = "\<lambda>s. None"
      and packaging_items = sample_packaging_no_3mm and weld_items = sample_weld_items_no_ag
      and st = default_pack_state and r = "0.8" and n = 20]
  by (simp add: sample_scan sample_find_ag)

text \<open>
  C9 as stated asks for a configuration error in place of a category cost of zero. With
  a frame, a board, a box and 25 mm foam but no 3 mm foam in the catalog, the Cost
  Summary page gives packaging the cost 0.0 and reports nothing (the weld heads cost, 244
  welds at 0.05 each, is 12.2).
\<close>

theorem absent_role_counterexample:
  "summary_packaging_cost (\<lambda>v. []) (\<lambda>s. None) sample_packaging_no_3mm default_pack_state 0.8
     = Inr 0
   \<and> summary_weld_heads_and_packaging (\<lambda>v. []) (\<lambda>s. None) sample_weld_items
        sample_packaging_no_3mm default_pack_state 0.8 20 = Inr (12.2, 0)"
proof -
  have pack: "summary_packaging_cost (\<lambda>v. []) (\<lambda>s. None) sample_packaging_no_3mm
                default_pack_state 0.8 = Inr 0"
    by (rule summary_packaging_absent_foam) (simp add: sample_scan)
  have weld: "summary_weld_heads_cost (\<lambda>v. []) (\<lambda>s. None) sample_weld_items 0.8 20 = Inr 12.2"
    by (simp add: summary_weld_heads_cost_def find_material_by_id_def sample_weld_items_def
        get_weld_cost_per_weld_summary_def weld_total_cost_gbp_def summary_ag_welds_def
        ag_welds_per_array_def role_eval)
  show ?thesis
    using pack weld by (simp add: summary_weld_heads_and_packaging_def py_bind_def)
qed

end
